theory Spec2Isabelle
  imports Complex_Main
begin

section \<open>Anomaly\_Detection.py: a sliding-window z-score detector\<close>

text \<open>
  The script has three parts: the generator function \<open>data_stream_generator\<close>, the class
  \<open>ZScoreAnomalyDetector\<close> and the loop \<open>real_time_visualization\<close>.

  The detector is modelled first with exact arithmetic on \<^typ>\<open>real\<close>: \<open>np.mean\<close> and
  \<open>np.std\<close> are the exact population mean and standard deviation. What is proved of it
  about the window, the control flow and the order of values does not depend on
  rounding, and the concrete runs evaluated with it involve only quantities that binary64
  represents exactly. The same method is then given over an arbitrary arithmetic
  (\<open>detect_fp\<close>), with binary64 as an instance, and the stream generator computes in
  binary64 throughout. Binary64 is modelled with an unbounded exponent range: rounding
  to 53 significant bits, no overflow, no subnormal numbers, no NaN.
\<close>

subsection \<open>Values and errors\<close>

text \<open>The arguments a caller may pass where the script tests \<open>isinstance(x, int)\<close>.\<close>

datatype pyval = PyInt int | PyBool bool | PyFloat real | PyStr string | PyNone

text \<open>\<open>isinstance(x, int)\<close> holds of ints and, \<open>bool\<close> being a subclass of \<open>int\<close>, of
  \<open>True\<close> (1) and \<open>False\<close> (0); \<open>as_int\<close> is the integer such a value compares as.\<close>

fun as_int :: "pyval \<Rightarrow> int option" where
  "as_int (PyInt i) = Some i"
| "as_int (PyBool b) = Some (if b then 1 else 0)"
| "as_int (PyFloat x) = None"
| "as_int (PyStr s) = None"
| "as_int PyNone = None"

datatype error = ValueError string | OverflowError | ZeroDivisionError

text \<open>Division raises on a zero divisor instead of returning HOL's \<open>x / 0 = 0\<close>.\<close>

definition py_div :: "real \<Rightarrow> real \<Rightarrow> error + real" where
  "py_div x y = (if y = 0 then Inl ZeroDivisionError else Inr (x / y))"

subsection \<open>\<open>collections.deque\<close> with \<open>maxlen\<close>\<close>

record 'a deque =
  maxlen :: nat
  items :: "'a list"

text \<open>\<open>append\<close> adds on the right and, when the length then exceeds \<open>maxlen\<close>, drops
  one element on the left.\<close>

definition deque_append :: "'a deque \<Rightarrow> 'a \<Rightarrow> 'a deque" where
  "deque_append dq x =
     (let ys = items dq @ [x]
      in dq\<lparr>items := (if length ys > maxlen dq then tl ys else ys)\<rparr>)"

subsection \<open>numpy statistics\<close>

definition np_mean :: "real list \<Rightarrow> real" where
  "np_mean xs = sum_list xs / real (length xs)"

text \<open>\<open>np.std\<close> with the default \<open>ddof = 0\<close>: the square root of the mean squared
  deviation from the mean.\<close>

definition np_std :: "real list \<Rightarrow> real" where
  "np_std xs = sqrt (np_mean (map (\<lambda>x. (x - np_mean xs)\<^sup>2) xs))"

subsection \<open>\<open>ZScoreAnomalyDetector\<close>\<close>

record detector =
  window_size :: pyval
  threshold :: real
  data_window :: "real deque"
  mean :: real
  std :: real

text \<open>The largest \<open>Py_ssize_t\<close>, on a 64-bit CPython; \<open>deque(maxlen=n)\<close> raises
  \<open>OverflowError\<close> for a larger \<open>n\<close>.\<close>

definition PY_SSIZE_T_MAX :: int where
  "PY_SSIZE_T_MAX = 2 ^ 63 - 1"

text \<open>\<open>__init__\<close>: the two checks in the source's order, the first one short-circuiting
  on a value that is not an int, then the construction of the deque.\<close>

definition init :: "pyval \<Rightarrow> real \<Rightarrow> error + detector" where
  "init ws th =
     (case as_int ws of
        None \<Rightarrow> Inl (ValueError ''window_size must be a Positive Integer'')
      | Some n \<Rightarrow>
          if n \<le> 0 then Inl (ValueError ''window_size must be a Positive Integer'')
          else if th \<le> 0 then Inl (ValueError ''threshold must be a Positive Number'')
          else if n > PY_SSIZE_T_MAX then Inl OverflowError
          else Inr \<lparr>window_size = ws, threshold = th,
                    data_window = \<lparr>maxlen = nat n, items = []\<rparr>,
                    mean = 0, std = 0\<rparr>)"

definition update_statistics :: "detector \<Rightarrow> detector" where
  "update_statistics self =
     (if length (items (data_window self)) > 1
      then self\<lparr>mean := np_mean (items (data_window self)),
                std := np_std (items (data_window self))\<rparr>
      else self)"

text \<open>\<open>detect\<close> returns the flag and the detector as the call leaves it.\<close>

definition detect :: "detector \<Rightarrow> real \<Rightarrow> error + (bool \<times> detector)" where
  "detect self new_value =
     (let self1 = self\<lparr>data_window := deque_append (data_window self) new_value\<rparr>;
          self2 = update_statistics self1
      in if std self2 = 0 then Inr (False, self2)
         else (case py_div (new_value - mean self2) (std self2) of
                 Inl e \<Rightarrow> Inl e
               | Inr zscore \<Rightarrow> Inr (\<bar>zscore\<bar> > threshold self2, self2)))"

text \<open>A caller making one \<open>detect\<close> call per value, in order; an exception ends the run.\<close>

fun detect_all :: "detector \<Rightarrow> real list \<Rightarrow> error + (bool list \<times> detector)" where
  "detect_all self [] = Inr ([], self)"
| "detect_all self (v # vs) =
     (case detect self v of
        Inl e \<Rightarrow> Inl e
      | Inr (b, self') \<Rightarrow>
          (case detect_all self' vs of
             Inl e \<Rightarrow> Inl e
           | Inr (bs, self'') \<Rightarrow> Inr (b # bs, self'')))"

text \<open>Constructing a detector and feeding it a list of values.\<close>

definition run_detector :: "pyval \<Rightarrow> real \<Rightarrow> real list \<Rightarrow> error + (bool list \<times> detector)" where
  "run_detector ws th vs = (case init ws th of Inl e \<Rightarrow> Inl e | Inr d \<Rightarrow> detect_all d vs)"

subsection \<open>Binary64 arithmetic\<close>

text \<open>Rounding to the nearest integer, a tie going to the even one (\<open>rint\<close>).\<close>

definition round_half_even :: "real \<Rightarrow> int" where
  "round_half_even y =
     (let f = \<lfloor>y\<rfloor>; d = y - real_of_int f
      in if d < 1/2 then f else if d > 1/2 then f + 1
         else if even f then f else f + 1)"

text \<open>The power of two with an integer exponent.\<close>

definition p2 :: "int \<Rightarrow> real" where
  "p2 e = (if 0 \<le> e then 2 ^ nat e else 1 / 2 ^ nat (- e))"

text \<open>
  \<open>fl x\<close> is the binary64 number nearest to \<open>x\<close>, a tie going to the one with an even
  significand: with \<open>2^k \<le> |x| < 2^(k+1)\<close>, the multiple of \<open>2^(k-52)\<close> nearest to \<open>x\<close>.
  Each operation returns the rounded exact result, as IEEE 754 prescribes.
\<close>

definition fl :: "real \<Rightarrow> real" where
  "fl x =
     (if x = 0 then 0
      else let e = \<lfloor>log 2 \<bar>x\<bar>\<rfloor> - 52
           in real_of_int (round_half_even (x / p2 e)) * p2 e)"

definition fadd :: "real \<Rightarrow> real \<Rightarrow> real" where
  "fadd x y = fl (x + y)"


definition fmul :: "real \<Rightarrow> real \<Rightarrow> real" where
  "fmul x y = fl (x * y)"

definition fdiv :: "real \<Rightarrow> real \<Rightarrow> real" where
  "fdiv x y = fl (x / y)"





text \<open>The conversion of a non-negative int to float, as in \<open>i * 0.05\<close>.\<close>

definition py_float :: "nat \<Rightarrow> real" where
  "py_float i = fl (real i)"

text \<open>
  \<open>round(value, 2)\<close> on the \<open>np.float64\<close> that \<open>value\<close> is: numpy multiplies by 100, rounds
  to the nearest integer (ties to even) and divides by 100, each step in binary64.
\<close>

definition py_round2 :: "real \<Rightarrow> real" where
  "py_round2 x = fdiv (real_of_int (round_half_even (fmul x 100))) 100"



subsection \<open>The detector over a given arithmetic\<close>

text \<open>
  \<open>update_statistics\<close> and \<open>detect\<close> once more, with the arithmetic as parameters:
  \<open>mean_fn\<close> and \<open>std_fn\<close> stand for \<open>np.mean\<close> and \<open>np.std\<close>, and \<open>rd\<close> rounds the result
  of the subtraction and of the division in \<open>detect\<close>. The definitions \<open>update_statistics\<close>
  and \<open>detect\<close> above are the instance with exact arithmetic (\<open>rd\<close> the identity,
  \<open>np_mean\<close> and \<open>np_std\<close>); binary64 is \<open>rd = fl\<close> with numpy's binary64 statistics.
\<close>

definition update_statistics_fp ::
  "(real list \<Rightarrow> real) \<Rightarrow> (real list \<Rightarrow> real) \<Rightarrow> detector \<Rightarrow> detector" where
  "update_statistics_fp mean_fn std_fn self =
     (if length (items (data_window self)) > 1
      then self\<lparr>mean := mean_fn (items (data_window self)),
                std := std_fn (items (data_window self))\<rparr>
      else self)"

definition detect_fp ::
  "(real \<Rightarrow> real) \<Rightarrow> (real list \<Rightarrow> real) \<Rightarrow> (real list \<Rightarrow> real) \<Rightarrow>
   detector \<Rightarrow> real \<Rightarrow> error + (bool \<times> detector)" where
  "detect_fp rd mean_fn std_fn self new_value =
     (let self1 = self\<lparr>data_window := deque_append (data_window self) new_value\<rparr>;
          self2 = update_statistics_fp mean_fn std_fn self1
      in if std self2 = 0 then Inr (False, self2)
         else (case py_div (rd (new_value - mean self2)) (std self2) of
                 Inl e \<Rightarrow> Inl e
               | Inr q \<Rightarrow> Inr (\<bar>rd q\<bar> > threshold self2, self2)))"


subsection \<open>\<open>data_stream_generator\<close>\<close>

text \<open>
  A generator object. Calling a generator function runs none of its body: the object
  starts out holding the arguments, and the body runs from its first line when the
  first value is asked for. \<open>Suspended i n\<close> is the body stopped at the \<open>yield\<close> of
  iteration \<open>i\<close> of \<open>range(n)\<close>; \<open>Finished\<close> is the body returned or raised.
\<close>

datatype generator = Unstarted pyval | Suspended nat nat | Finished

text \<open>The call itself: it builds the generator object and raises nothing, whatever
  the argument.\<close>

definition data_stream_generator :: "pyval \<Rightarrow> error + generator" where
  "data_stream_generator num_points = Inr (Unstarted num_points)"

text \<open>What \<open>next\<close> on a generator comes back with; \<open>'r\<close> is the state of the \<open>random\<close>
  module.\<close>

datatype 'r gen_result =
  Yield real generator 'r
| StopIteration generator 'r
| Raise error generator 'r

text \<open>
  One pass through the loop body for index \<open>i\<close>, in binary64. The libraries are
  parameters: \<open>np_sin\<close> is numpy's sine, \<open>gauss mu sigma\<close> and \<open>rnd\<close> map the state of
  the \<open>random\<close> module to a draw and the next state. The literals \<open>0.05\<close> and \<open>0.01\<close>
  are the binary64 numbers nearest to them.
\<close>

definition loop_body ::
  "(real \<Rightarrow> real) \<Rightarrow> (real \<Rightarrow> real \<Rightarrow> 'r \<Rightarrow> real \<times> 'r) \<Rightarrow> ('r \<Rightarrow> real \<times> 'r) \<Rightarrow>
   nat \<Rightarrow> 'r \<Rightarrow> real \<times> 'r" where
  "loop_body np_sin gauss rnd i r =
     (let season = fmul (np_sin (fmul (py_float i) (fl (5/100)))) 10;
          trend = fmul (py_float i) (fl (1/100));
          (noise, r1) = gauss 0 1 r;
          v = fadd (fadd season trend) noise;
          (u, r2) = rnd r1
      in if u < fl (1/100)
         then (let (spike, r3) = gauss 50 10 r2 in (py_round2 (fadd v spike), r3))
         else (py_round2 v, r2))"

definition iterate ::
  "(real \<Rightarrow> real) \<Rightarrow> (real \<Rightarrow> real \<Rightarrow> 'r \<Rightarrow> real \<times> 'r) \<Rightarrow> ('r \<Rightarrow> real \<times> 'r) \<Rightarrow>
   nat \<Rightarrow> nat \<Rightarrow> 'r \<Rightarrow> 'r gen_result" where
  "iterate np_sin gauss rnd i n r =
     (if i < n
      then (case loop_body np_sin gauss rnd i r of (v, r') \<Rightarrow> Yield v (Suspended i n) r')
      else StopIteration Finished r)"

definition gen_next ::
  "(real \<Rightarrow> real) \<Rightarrow> (real \<Rightarrow> real \<Rightarrow> 'r \<Rightarrow> real \<times> 'r) \<Rightarrow> ('r \<Rightarrow> real \<times> 'r) \<Rightarrow>
   generator \<Rightarrow> 'r \<Rightarrow> 'r gen_result" where
  "gen_next np_sin gauss rnd g r =
     (case g of
        Unstarted num_points \<Rightarrow>
          (case as_int num_points of
             None \<Rightarrow> Raise (ValueError ''num_points must be a positive integer'') Finished r
           | Some n \<Rightarrow>
               if n \<le> 0
               then Raise (ValueError ''num_points must be a positive integer'') Finished r
               else iterate np_sin gauss rnd 0 (nat n) r)
      | Suspended i n \<Rightarrow> iterate np_sin gauss rnd (Suc i) n r
      | Finished \<Rightarrow> StopIteration Finished r)"

text \<open>An upper bound on the values a generator can still yield.\<close>

fun remaining :: "generator \<Rightarrow> nat" where
  "remaining (Unstarted v) = (case as_int v of None \<Rightarrow> 0 | Some n \<Rightarrow> Suc (nat n))"
| "remaining (Suspended i n) = n - i"
| "remaining Finished = 0"

text \<open>\<open>list(g)\<close>: the values up to exhaustion, or the exception that ends them.\<close>

function drain ::
  "(real \<Rightarrow> real) \<Rightarrow> (real \<Rightarrow> real \<Rightarrow> 'r \<Rightarrow> real \<times> 'r) \<Rightarrow> ('r \<Rightarrow> real \<times> 'r) \<Rightarrow>
   generator \<Rightarrow> 'r \<Rightarrow> error + real list" where
  "drain np_sin gauss rnd g r =
     (case gen_next np_sin gauss rnd g r of
        Yield v g' r' \<Rightarrow>
          (case drain np_sin gauss rnd g' r' of Inl e \<Rightarrow> Inl e | Inr vs \<Rightarrow> Inr (v # vs))
      | StopIteration g' r' \<Rightarrow> Inr []
      | Raise e g' r' \<Rightarrow> Inl e)"
  by pat_completeness auto
termination
  by (relation "measure (\<lambda>(np_sin, gauss, rnd, g, r). remaining g)")
     (auto simp: gen_next_def iterate_def
           split: generator.splits option.splits if_splits prod.splits)

subsection \<open>\<open>real_time_visualization\<close>\<close>

text \<open>\<open>str\<close> of a non-negative int, as the f-string renders the index.\<close>

definition digit :: "nat \<Rightarrow> char" where
  "digit d = ''0123456789'' ! d"

fun str_nat :: "nat \<Rightarrow> string" where
  "str_nat n = (if n < 10 then [digit n] else str_nat (n div 10) @ [digit (n mod 10)])"

text \<open>\<open>print(s)\<close> writes \<open>s\<close> and then a newline to standard output.\<close>

definition py_print :: "string \<Rightarrow> string \<Rightarrow> string" where
  "py_print out s = out @ s @ [CHR 0x0A]"

text \<open>The text the f-string builds for index \<open>i\<close> and value \<open>point\<close>; \<open>fmt\<close> is Python's
  rendering of a float, a parameter here.\<close>

definition log_text :: "(real \<Rightarrow> string) \<Rightarrow> nat \<Rightarrow> real \<Rightarrow> string" where
  "log_text fmt i point =
     ''--> Anomaly detected at X-axis '' @ str_nat i @ '' & Y-axis '' @ fmt point @ [CHR 0x0A]"

text \<open>The loop's variables and standard output; \<open>vals\<close> is the source's list
  \<open>values\<close>. The matplotlib calls draw from these variables and change none of
  them; they are left out.\<close>

record vis_state =
  vals :: "real list"
  anomalies :: "real option list"
  count :: nat
  stdout :: string

function vis_loop ::
  "(real \<Rightarrow> real) \<Rightarrow> (real \<Rightarrow> real \<Rightarrow> 'r \<Rightarrow> real \<times> 'r) \<Rightarrow> ('r \<Rightarrow> real \<times> 'r) \<Rightarrow>
   (real \<Rightarrow> string) \<Rightarrow>
   detector \<Rightarrow> generator \<Rightarrow> 'r \<Rightarrow> nat \<Rightarrow> vis_state \<Rightarrow> error + (vis_state \<times> detector)" where
  "vis_loop np_sin gauss rnd fmt det g r i st =
     (case gen_next np_sin gauss rnd g r of
        StopIteration g' r' \<Rightarrow> Inr (st, det)
      | Raise e g' r' \<Rightarrow> Inl e
      | Yield point g' r' \<Rightarrow>
          (case detect det point of
             Inl e \<Rightarrow> Inl e
           | Inr (is_anomaly, det') \<Rightarrow>
               vis_loop np_sin gauss rnd fmt det' g' r' (Suc i)
                 (if is_anomaly
                  then st\<lparr>vals := vals st @ [point],
                          anomalies := anomalies st @ [Some point],
                          count := count st + 1,
                          stdout := py_print (stdout st) (log_text fmt i point)\<rparr>
                  else st\<lparr>vals := vals st @ [point],
                          anomalies := anomalies st @ [None]\<rparr>)))"
  by pat_completeness auto
termination
  by (relation "measure (\<lambda>(np_sin, gauss, rnd, fmt, det, g, r, i, st). remaining g)")
     (auto simp: gen_next_def iterate_def
           split: generator.splits option.splits if_splits prod.splits)

definition real_time_visualization ::
  "(real \<Rightarrow> real) \<Rightarrow> (real \<Rightarrow> real \<Rightarrow> 'r \<Rightarrow> real \<times> 'r) \<Rightarrow> ('r \<Rightarrow> real \<times> 'r) \<Rightarrow>
   (real \<Rightarrow> string) \<Rightarrow>
   detector \<Rightarrow> pyval \<Rightarrow> 'r \<Rightarrow> error + (vis_state \<times> detector)" where
  "real_time_visualization np_sin gauss rnd fmt det num_points r =
     (case data_stream_generator num_points of
        Inl e \<Rightarrow> Inl e
      | Inr data_stream \<Rightarrow>
          vis_loop np_sin gauss rnd fmt det data_stream r 0
            \<lparr>vals = [], anomalies = [], count = 0, stdout = []\<rparr>)"

text \<open>
  The console output as the specification words it: going through the samples in order
  from index \<open>i\<close>, an anomalous sample contributes the text \<open>line i p\<close> and any other
  sample contributes nothing.
\<close>

fun spec_console_log :: "(nat \<Rightarrow> real \<Rightarrow> string) \<Rightarrow> nat \<Rightarrow> real list \<Rightarrow> bool list \<Rightarrow> string" where
  "spec_console_log line i (p # ps) (b # bs) =
     (if b then line i p else []) @ spec_console_log line (Suc i) ps bs"
| "spec_console_log line i ps bs = []"

section \<open>The detector\<close>

subsection \<open>One call\<close>

lemma detect_Inr:
  "\<exists>b. detect self v =
     Inr (b, update_statistics (self\<lparr>data_window := deque_append (data_window self) v\<rparr>))"
  by (cases "std (update_statistics (self\<lparr>data_window := deque_append (data_window self) v\<rparr>)) = 0")
     (auto simp: detect_def Let_def py_div_def)

lemma detect_never_raises: "detect self v \<noteq> Inl e"
  by (simp add: detect_def Let_def py_div_def)

lemma detect_result:
  "detect self v = Inr (b, d) \<Longrightarrow>
   d = update_statistics (self\<lparr>data_window := deque_append (data_window self) v\<rparr>)"
  by (auto simp: detect_def Let_def py_div_def split: if_splits)



lemma detect_fp_Inr:
  "\<exists>b d'. detect_fp rd mean_fn std_fn self v = Inr (b, d') \<and> (std d' = 0 \<longrightarrow> \<not> b)"
  by (cases "std (update_statistics_fp mean_fn std_fn
                   (self\<lparr>data_window := deque_append (data_window self) v\<rparr>)) = 0")
     (auto simp: detect_fp_def Let_def py_div_def)

lemma update_statistics_window [simp]:
  "data_window (update_statistics d) = data_window d"
  by (simp add: update_statistics_def)

lemma update_statistics_threshold [simp]:
  "threshold (update_statistics d) = threshold d"
  by (simp add: update_statistics_def)

lemma deque_append_maxlen [simp]: "maxlen (deque_append dq x) = maxlen dq"
  by (simp add: deque_append_def Let_def)

lemma slide_step:
  assumes "0 < M"
  shows "(let ys = drop (length h - M) h @ [x] in if length ys > M then tl ys else ys)
         = drop (length (h @ [x]) - M) (h @ [x])"
proof (cases "length h < M")
  case True
  then show ?thesis by (simp add: Let_def)
next
  case False
  then have ge: "M \<le> length h" by simp
  have ne: "drop (length h - M) h \<noteq> []" using ge assms by simp
  have "tl (drop (length h - M) h @ [x]) = tl (drop (length h - M) h) @ [x]"
    using ne by simp
  also have "\<dots> = drop (Suc (length h - M)) h @ [x]"
    by (simp add: tl_drop drop_Suc)
  also have "\<dots> = drop (length (h @ [x]) - M) (h @ [x])"
    using ge assms by (simp add: Suc_diff_le)
  finally show ?thesis using ge assms by (simp add: Let_def)
qed

lemma deque_append_last:
  assumes "0 < maxlen dq" and "items dq = drop (length h - maxlen dq) h"
  shows "items (deque_append dq x) = drop (length (h @ [x]) - maxlen dq) (h @ [x])"
  using slide_step[OF assms(1), of h x] assms(2)
  by (simp add: deque_append_def Let_def)

lemma detect_all_window:
  assumes "0 < maxlen (data_window d)"
    and "items (data_window d) = drop (length h - maxlen (data_window d)) h"
  shows "\<exists>bs d'. detect_all d vs = Inr (bs, d') \<and> length bs = length vs
     \<and> maxlen (data_window d') = maxlen (data_window d)
     \<and> items (data_window d') = drop (length (h @ vs) - maxlen (data_window d)) (h @ vs)"
  using assms
proof (induction vs arbitrary: d h)
  case Nil
  then show ?case by simp
next
  case (Cons v vs)
  obtain b d1 where d1: "detect d v = Inr (b, d1)"
    using detect_Inr[of d v] by blast
  have w1: "data_window d1 = deque_append (data_window d) v"
    using detect_result[OF d1] by simp
  have m1: "maxlen (data_window d1) = maxlen (data_window d)"
    using w1 by simp
  have it1: "items (data_window d1) = drop (length (h @ [v]) - maxlen (data_window d1)) (h @ [v])"
    using deque_append_last[OF Cons.prems] w1 by simp
  have pos1: "0 < maxlen (data_window d1)" using m1 Cons.prems(1) by simp
  from Cons.IH[OF pos1 it1] obtain bs d' where
    r: "detect_all d1 vs = Inr (bs, d')" "length bs = length vs"
       "maxlen (data_window d') = maxlen (data_window d1)"
       "items (data_window d') = drop (length ((h @ [v]) @ vs) - maxlen (data_window d1)) ((h @ [v]) @ vs)"
    by blast
  show ?case using d1 r m1 by simp
qed

lemma init_Inr:
  "init ws th = Inr d \<Longrightarrow>
   \<exists>n. as_int ws = Some n \<and> 0 < n \<and> 0 < th \<and>
       d = \<lparr>window_size = ws, threshold = th,
            data_window = \<lparr>maxlen = nat n, items = []\<rparr>, mean = 0, std = 0\<rparr>"
  by (auto simp: init_def split: option.splits if_splits)

text \<open>
  Claim C1. A detector built with window size \<open>W\<close> and then given any sequence \<open>vs\<close>
  of \<open>detect\<close> calls holds in its window the last \<open>min (length vs) W\<close> values of
  \<open>vs\<close>, oldest first: older values have been dropped from the left, and the value
  of the latest call is the last element. As \<open>vs\<close> is any sequence, this is the state
  after each call of a longer one.
\<close>

theorem window_holds_most_recent:
  assumes "init ws th = Inr d0" and "as_int ws = Some W"
  shows "\<exists>bs d. detect_all d0 vs = Inr (bs, d)
           \<and> items (data_window d) = drop (length vs - nat W) vs
           \<and> length (items (data_window d)) = min (length vs) (nat W)
           \<and> (vs \<noteq> [] \<longrightarrow> last (items (data_window d)) = last vs)"
proof -
  from init_Inr[OF assms(1)] assms(2) have W: "0 < W"
    and d0: "data_window d0 = \<lparr>maxlen = nat W, items = []\<rparr>"
    by auto
  have pos: "0 < maxlen (data_window d0)" using W d0 by simp
  have start: "items (data_window d0) = drop (length ([]::real list) - maxlen (data_window d0)) []"
    using d0 by simp
  from detect_all_window[OF pos start, of vs] obtain bs d where
    r: "detect_all d0 vs = Inr (bs, d)"
       "items (data_window d) = drop (length vs - nat W) vs"
    using d0 by auto
  have len: "length (items (data_window d)) = min (length vs) (nat W)"
    using r(2) by auto
  have "last (items (data_window d)) = last vs" if "vs \<noteq> []"
  proof -
    have "length vs - nat W < length vs" using that W by (cases vs) auto
    then show ?thesis using r(2) by simp
  qed
  then show ?thesis using r len by blast
qed

theorem window_holds_most_recent_witness:
  "init (PyInt 3) 2 =
     Inr \<lparr>window_size = PyInt 3, threshold = 2,
          data_window = \<lparr>maxlen = 3, items = []\<rparr>, mean = 0, std = 0\<rparr>
   \<and> as_int (PyInt 3) = Some 3
   \<and> (\<exists>bs d. detect_all \<lparr>window_size = PyInt 3, threshold = 2,
                 data_window = \<lparr>maxlen = 3, items = []\<rparr>, mean = 0, std = 0\<rparr>
                 [1, 2, 3, 4, 5] = Inr (bs, d)
        \<and> items (data_window d) = [3, 4, 5])"
proof -
  have i: "init (PyInt 3) 2 =
     Inr \<lparr>window_size = PyInt 3, threshold = 2,
          data_window = \<lparr>maxlen = 3, items = []\<rparr>, mean = 0, std = 0\<rparr>"
    by (simp add: init_def PY_SSIZE_T_MAX_def)
  have a: "as_int (PyInt 3) = Some 3" by simp
  from window_holds_most_recent[OF i a, of "[1, 2, 3, 4, 5]"]
  obtain bs d where
    r: "detect_all \<lparr>window_size = PyInt 3, threshold = 2,
          data_window = \<lparr>maxlen = 3, items = []\<rparr>, mean = 0, std = 0\<rparr>
          [1, 2, 3, 4, 5] = Inr (bs, d)"
    and w: "items (data_window d) = drop (length [1, 2, 3, 4, 5 :: real] - nat 3) [1, 2, 3, 4, 5]"
    by blast
  have "items (data_window d) = [3, 4, 5]" using w by simp
  then show ?thesis using i a r by blast
qed

text \<open>
  Claim C4. Whatever window size and threshold \<open>__init__\<close> accepted, the first
  \<open>detect\<close> call on the new detector returns \<open>False\<close> for every value: the window
  then has one element, the statistics are still \<open>mean = 0\<close> and \<open>std = 0\<close>, and the
  \<open>std == 0\<close> branch returns.
\<close>

theorem first_call_returns_false:
  assumes "init ws th = Inr d"
  shows "\<exists>d'. detect d v = Inr (False, d') \<and> items (data_window d') = [v]
           \<and> mean d' = 0 \<and> std d' = 0"
proof -
  from init_Inr[OF assms] obtain n where "0 < n"
    and d: "d = \<lparr>window_size = ws, threshold = th,
            data_window = \<lparr>maxlen = nat n, items = []\<rparr>, mean = 0, std = 0\<rparr>"
    by blast
  then show ?thesis
    by (simp add: detect_def Let_def deque_append_def update_statistics_def)
qed

theorem first_call_returns_false_witness:
  "init (PyInt 50) 3 =
     Inr \<lparr>window_size = PyInt 50, threshold = 3,
          data_window = \<lparr>maxlen = 50, items = []\<rparr>, mean = 0, std = 0\<rparr>
   \<and> (\<exists>d'. detect \<lparr>window_size = PyInt 50, threshold = 3,
                data_window = \<lparr>maxlen = 50, items = []\<rparr>, mean = 0, std = 0\<rparr> 1000000
             = Inr (False, d'))"
proof -
  have i: "init (PyInt 50) 3 =
     Inr \<lparr>window_size = PyInt 50, threshold = 3,
          data_window = \<lparr>maxlen = 50, items = []\<rparr>, mean = 0, std = 0\<rparr>"
    by (simp add: init_def PY_SSIZE_T_MAX_def)
  show ?thesis using first_call_returns_false[OF i, of 1000000] i by blast
qed

lemma detect_window_one:
  assumes "maxlen (data_window d) = 1" and "length (items (data_window d)) \<le> 1"
    and "mean d = 0" and "std d = 0"
  shows "\<exists>d'. detect d v = Inr (False, d') \<and> maxlen (data_window d') = 1
           \<and> items (data_window d') = [v] \<and> mean d' = 0 \<and> std d' = 0"
proof (cases "items (data_window d)")
  case Nil
  then show ?thesis using assms
    by (simp add: detect_def Let_def deque_append_def update_statistics_def)
next
  case (Cons x xs)
  then have "xs = []" using assms(2) by simp
  then show ?thesis using assms Cons
    by (simp add: detect_def Let_def deque_append_def update_statistics_def)
qed

lemma detect_all_window_one:
  assumes "maxlen (data_window d) = 1" and "length (items (data_window d)) \<le> 1"
    and "mean d = 0" and "std d = 0"
  shows "\<exists>d'. detect_all d vs = Inr (replicate (length vs) False, d')
           \<and> length (items (data_window d')) \<le> 1 \<and> mean d' = 0 \<and> std d' = 0"
  using assms
proof (induction vs arbitrary: d)
  case Nil
  then show ?case by simp
next
  case (Cons v vs)
  from detect_window_one[OF Cons.prems, of v] obtain d1 where
    s: "detect d v = Inr (False, d1)" "maxlen (data_window d1) = 1"
       "items (data_window d1) = [v]" "mean d1 = 0" "std d1 = 0"
    by blast
  have l: "length (items (data_window d1)) \<le> 1" using s(3) by simp
  from Cons.IH[OF s(2) l s(4) s(5)] obtain d' where
    "detect_all d1 vs = Inr (replicate (length vs) False, d')"
    "length (items (data_window d')) \<le> 1" "mean d' = 0" "std d' = 0"
    by blast
  then show ?case using s(1) by simp
qed

text \<open>
  Claim C10. With window size 1 (and any accepted threshold) every \<open>detect\<close> call
  returns \<open>False\<close>: the window never has more than one element, the statistics are
  never recomputed, and \<open>mean\<close> and \<open>std\<close> keep their initial value 0.
\<close>

theorem window_size_one_never_flags:
  assumes "init ws th = Inr d" and "as_int ws = Some 1"
  shows "\<exists>d'. detect_all d vs = Inr (replicate (length vs) False, d')
           \<and> length (items (data_window d')) \<le> 1 \<and> mean d' = 0 \<and> std d' = 0"
proof -
  from init_Inr[OF assms(1)] assms(2)
  have d: "d = \<lparr>window_size = ws, threshold = th,
            data_window = \<lparr>maxlen = 1, items = []\<rparr>, mean = 0, std = 0\<rparr>"
    by auto
  show ?thesis
    by (rule detect_all_window_one) (simp_all add: d)
qed

theorem window_size_one_never_flags_witness:
  "init (PyInt 1) (1/2) =
     Inr \<lparr>window_size = PyInt 1, threshold = 1/2,
          data_window = \<lparr>maxlen = 1, items = []\<rparr>, mean = 0, std = 0\<rparr>
   \<and> as_int (PyInt 1) = Some 1
   \<and> (\<exists>d'. detect_all \<lparr>window_size = PyInt 1, threshold = 1/2,
                data_window = \<lparr>maxlen = 1, items = []\<rparr>, mean = 0, std = 0\<rparr>
                [0, 100, -7] = Inr ([False, False, False], d'))"
proof -
  have i: "init (PyInt 1) (1/2) =
     Inr \<lparr>window_size = PyInt 1, threshold = 1/2,
          data_window = \<lparr>maxlen = 1, items = []\<rparr>, mean = 0, std = 0\<rparr>"
    by (simp add: init_def PY_SSIZE_T_MAX_def)
  have a: "as_int (PyInt 1) = Some 1" by simp
  from window_size_one_never_flags[OF i a, of "[0, 100, -7]"]
  obtain d' where
    r: "detect_all \<lparr>window_size = PyInt 1, threshold = 1/2,
          data_window = \<lparr>maxlen = 1, items = []\<rparr>, mean = 0, std = 0\<rparr>
          [0, 100, -7] = Inr (replicate (length [0, 100, -7 :: real]) False, d')"
    by blast
  have "replicate (length [0, 100, -7 :: real]) False = [False, False, False]"
    by (simp add: numeral_3_eq_3)
  then show ?thesis using i a r by auto
qed
subsection \<open>Construction\<close>

text \<open>
  Claim C6. \<open>__init__\<close> raises \<open>ValueError\<close> exactly when the window size is not an
  int, or is an int that is zero or negative, or the threshold is zero or negative;
  window size 0 with threshold 3.0 and window size 10 with threshold 0 are refused,
  window size 10 with threshold 3.0 is accepted. Apart from \<open>ValueError\<close> the
  constructor can only fail in building the deque, with \<open>OverflowError\<close> for a window
  size above \<open>PY_SSIZE_T_MAX\<close>, and it returns a detector in every other case.
  \<open>detect\<close> raises nothing, whatever the detector, the value and the arithmetic.
\<close>

theorem init_fails_iff:
  "((\<exists>msg. init ws th = Inl (ValueError msg))
      \<longleftrightarrow> (as_int ws = None \<or> (\<exists>n. as_int ws = Some n \<and> n \<le> 0) \<or> th \<le> 0))
   \<and> (init ws th = Inl OverflowError
      \<longleftrightarrow> (\<exists>n. as_int ws = Some n \<and> PY_SSIZE_T_MAX < n \<and> 0 < th))
   \<and> ((\<exists>d. init ws th = Inr d)
      \<longleftrightarrow> (\<exists>n. as_int ws = Some n \<and> 0 < n \<and> n \<le> PY_SSIZE_T_MAX \<and> 0 < th))
   \<and> init ws th \<noteq> Inl ZeroDivisionError
   \<and> init (PyInt 0) 3 = Inl (ValueError ''window_size must be a Positive Integer'')
   \<and> init (PyInt 10) 0 = Inl (ValueError ''threshold must be a Positive Number'')
   \<and> init (PyInt 10) 3 =
        Inr \<lparr>window_size = PyInt 10, threshold = 3,
             data_window = \<lparr>maxlen = 10, items = []\<rparr>, mean = 0, std = 0\<rparr>
   \<and> (\<exists>b d'. detect self v = Inr (b, d'))
   \<and> (\<exists>b d'. detect_fp rd mean_fn std_fn self v = Inr (b, d'))"
proof -
  have a: "(\<exists>msg. init ws th = Inl (ValueError msg))
      \<longleftrightarrow> (as_int ws = None \<or> (\<exists>n. as_int ws = Some n \<and> n \<le> 0) \<or> th \<le> 0)"
    by (cases "as_int ws") (auto simp: init_def)
  have o: "init ws th = Inl OverflowError
      \<longleftrightarrow> (\<exists>n. as_int ws = Some n \<and> PY_SSIZE_T_MAX < n \<and> 0 < th)"
    by (cases "as_int ws") (auto simp: init_def PY_SSIZE_T_MAX_def)
  have b: "(\<exists>d. init ws th = Inr d)
      \<longleftrightarrow> (\<exists>n. as_int ws = Some n \<and> 0 < n \<and> n \<le> PY_SSIZE_T_MAX \<and> 0 < th)"
    by (cases "as_int ws") (auto simp: init_def)
  have c: "init ws th \<noteq> Inl ZeroDivisionError"
    by (cases "as_int ws") (auto simp: init_def)
  have d: "init (PyInt 0) 3 = Inl (ValueError ''window_size must be a Positive Integer'')"
    by (simp add: init_def)
  have e: "init (PyInt 10) 0 = Inl (ValueError ''threshold must be a Positive Number'')"
    by (simp add: init_def)
  have f: "init (PyInt 10) 3 =
        Inr \<lparr>window_size = PyInt 10, threshold = 3,
             data_window = \<lparr>maxlen = 10, items = []\<rparr>, mean = 0, std = 0\<rparr>"
    by (simp add: init_def PY_SSIZE_T_MAX_def)
  have g: "\<exists>b d'. detect self v = Inr (b, d')"
    using detect_Inr[of self v] by blast
  have h: "\<exists>b d'. detect_fp rd mean_fn std_fn self v = Inr (b, d')"
    using detect_fp_Inr[of rd mean_fn std_fn self v] by blast
  show ?thesis using a o b c d e f g h by blast
qed

theorem init_fails_iff_witness:
  "(\<exists>msg. init (PyFloat (5/2)) 3 = Inl (ValueError msg))
   \<and> (\<exists>msg. init (PyInt (-4)) 3 = Inl (ValueError msg))
   \<and> (\<exists>msg. init (PyInt 10) (-1) = Inl (ValueError msg))
   \<and> init (PyInt (2 ^ 63)) 3 = Inl OverflowError
   \<and> (\<exists>d. init (PyInt (2 ^ 63 - 1)) 3 = Inr d)
   \<and> (\<exists>d. init (PyBool True) (1/2) = Inr d)"
proof -
  have 1: "\<exists>msg. init (PyFloat (5/2)) 3 = Inl (ValueError msg)"
    using init_fails_iff[of "PyFloat (5/2)" 3] by simp
  have 2: "\<exists>msg. init (PyInt (-4)) 3 = Inl (ValueError msg)"
    using init_fails_iff[of "PyInt (-4)" 3] by simp
  have 3: "\<exists>msg. init (PyInt 10) (-1) = Inl (ValueError msg)"
    using init_fails_iff[of "PyInt 10" "-1"] by simp
  have 4: "init (PyInt (2 ^ 63)) 3 = Inl OverflowError"
    using init_fails_iff[of "PyInt (2 ^ 63)" 3] by (simp add: PY_SSIZE_T_MAX_def)
  have 5: "\<exists>d. init (PyInt (2 ^ 63 - 1)) 3 = Inr d"
    using init_fails_iff[of "PyInt (2 ^ 63 - 1)" 3] by (simp add: PY_SSIZE_T_MAX_def)
  have 6: "\<exists>d. init (PyBool True) (1/2) = Inr d"
    using init_fails_iff[of "PyBool True" "1/2"] by (simp add: PY_SSIZE_T_MAX_def)
  show ?thesis using 1 2 3 4 5 6 by blast
qed

subsection \<open>The threshold\<close>

text \<open>The detector after \<open>detect(0)\<close> on a fresh detector of window size 2, then given
  the value 4: the window is \<open>[0, 4]\<close>, mean 2, standard deviation 2, z-score 1.\<close>

lemma detect_zscore_one:
  "detect \<lparr>window_size = PyInt 2, threshold = t,
           data_window = \<lparr>maxlen = 2, items = [0]\<rparr>, mean = 0, std = 0\<rparr> 4
     = Inr (t < 1, \<lparr>window_size = PyInt 2, threshold = t,
                  data_window = \<lparr>maxlen = 2, items = [0, 4]\<rparr>, mean = 2, std = 2\<rparr>)"
proof -
  have m: "np_mean [0, 4] = 2" by (simp add: np_mean_def)
  have s: "np_std [0, 4] = 2" by (simp add: np_std_def m) (simp add: np_mean_def)
  show ?thesis
    by (simp add: detect_def Let_def deque_append_def update_statistics_def py_div_def m s)
qed

text \<open>
  Claim C5, as stated, fails: on the same window and value, threshold 0.5 flags the
  value 4 and the larger threshold 3 does not.
\<close>

theorem raising_threshold_unflags_counterexample:
  "detect \<lparr>window_size = PyInt 2, threshold = 1/2,
           data_window = \<lparr>maxlen = 2, items = [0]\<rparr>, mean = 0, std = 0\<rparr> 4
     = Inr (True, \<lparr>window_size = PyInt 2, threshold = 1/2,
                  data_window = \<lparr>maxlen = 2, items = [0, 4]\<rparr>, mean = 2, std = 2\<rparr>)
   \<and> (1/2 :: real) < 3
   \<and> detect \<lparr>window_size = PyInt 2, threshold = 3,
           data_window = \<lparr>maxlen = 2, items = [0]\<rparr>, mean = 0, std = 0\<rparr> 4
     = Inr (False, \<lparr>window_size = PyInt 2, threshold = 3,
                  data_window = \<lparr>maxlen = 2, items = [0, 4]\<rparr>, mean = 2, std = 2\<rparr>)"
  by (simp add: detect_zscore_one)

text \<open>
  Claim C5, amended. The classification is monotone the other way: on the same window,
  statistics and value, a point flagged under a threshold is flagged under every smaller
  threshold; lowering the threshold never turns a flagged point into a non-flagged one.
\<close>

theorem lowering_threshold_keeps_flag:
  assumes "t1 \<le> threshold d"
    and "detect d v = Inr (True, d')"
  shows "detect (d\<lparr>threshold := t1\<rparr>) v = Inr (True, d'\<lparr>threshold := t1\<rparr>)"
  using assms
  by (auto simp: detect_def Let_def py_div_def update_statistics_def split: if_splits)

theorem lowering_threshold_keeps_flag_witness:
  "(1/4 :: real) \<le> threshold \<lparr>window_size = PyInt 2, threshold = 1/2,
           data_window = \<lparr>maxlen = 2, items = [0]\<rparr>, mean = 0, std = 0\<rparr>
   \<and> detect \<lparr>window_size = PyInt 2, threshold = 1/2,
           data_window = \<lparr>maxlen = 2, items = [0]\<rparr>, mean = 0, std = 0\<rparr> 4
     = Inr (True, \<lparr>window_size = PyInt 2, threshold = 1/2,
                  data_window = \<lparr>maxlen = 2, items = [0, 4]\<rparr>, mean = 2, std = 2\<rparr>)
   \<and> detect \<lparr>window_size = PyInt 2, threshold = 1/4,
           data_window = \<lparr>maxlen = 2, items = [0]\<rparr>, mean = 0, std = 0\<rparr> 4
     = Inr (True, \<lparr>window_size = PyInt 2, threshold = 1/4,
                  data_window = \<lparr>maxlen = 2, items = [0, 4]\<rparr>, mean = 2, std = 2\<rparr>)"
proof -
  have a: "(1/4 :: real) \<le> threshold \<lparr>window_size = PyInt 2, threshold = 1/2,
           data_window = \<lparr>maxlen = 2, items = [0]\<rparr>, mean = 0, std = 0\<rparr>"
    by simp
  have b: "detect \<lparr>window_size = PyInt 2, threshold = 1/2,
           data_window = \<lparr>maxlen = 2, items = [0]\<rparr>, mean = 0, std = 0\<rparr> 4
     = Inr (True, \<lparr>window_size = PyInt 2, threshold = 1/2,
                  data_window = \<lparr>maxlen = 2, items = [0, 4]\<rparr>, mean = 2, std = 2\<rparr>)"
    by (simp add: detect_zscore_one)
  show ?thesis using lowering_threshold_keeps_flag[OF a b] a b by simp
qed

lemma raising_threshold_keeps_unflagged:
  assumes "threshold d \<le> t2"
    and "detect d v = Inr (False, d')"
  shows "detect (d\<lparr>threshold := t2\<rparr>) v = Inr (False, d'\<lparr>threshold := t2\<rparr>)"
  using assms
  by (auto simp: detect_def Let_def py_div_def update_statistics_def split: if_splits)

subsection \<open>Windows of equal values\<close>

text \<open>
  With exact arithmetic the mean of \<open>n\<close> copies of \<open>v\<close> is \<open>v\<close> and their standard
  deviation is 0, so a detector fed one value over and over keeps \<open>std = 0\<close> and flags
  nothing. The sum and the quotient behind this are exact in binary floating point for
  some values (10 among them) and rounded for others (0.1 among them, as shown in the
  section on windows of equal values in binary64).
\<close>

lemma np_mean_replicate: "0 < n \<Longrightarrow> np_mean (replicate n v) = v"
  by (simp add: np_mean_def sum_list_replicate)

lemma np_std_replicate: "np_std (replicate n v) = 0"
proof (cases n)
  case 0
  then show ?thesis by (simp add: np_std_def np_mean_def)
next
  case (Suc m)
  then have "0 < n" by simp
  then have m: "np_mean (replicate n v) = v" by (rule np_mean_replicate)
  have "map (\<lambda>x. (x - v)\<^sup>2) (replicate n v) = replicate n 0" by simp
  then show ?thesis by (simp add: np_std_def m) (simp add: np_mean_def sum_list_replicate)
qed

lemma deque_append_replicate:
  "items dq = replicate k v \<Longrightarrow> \<exists>k'. items (deque_append dq v) = replicate k' v"
proof -
  assume a: "items dq = replicate k v"
  have ys: "items dq @ [v] = replicate (Suc k) v" using a by (simp add: replicate_append_same)
  show ?thesis
  proof (cases "length (items dq @ [v]) > maxlen dq")
    case True
    then have "items (deque_append dq v) = replicate k v"
      using ys by (simp add: deque_append_def Let_def)
    then show ?thesis by blast
  next
    case False
    then have "items (deque_append dq v) = replicate (Suc k) v"
      using ys by (simp add: deque_append_def Let_def del: replicate_Suc)
    then show ?thesis by blast
  qed
qed

lemma detect_uniform:
  assumes "items (data_window d) = replicate k v" and "std d = 0"
  shows "\<exists>d' k'. detect d v = Inr (False, d') \<and> items (data_window d') = replicate k' v
           \<and> std d' = 0"
proof -
  from deque_append_replicate[OF assms(1)] obtain k' where
    k': "items (deque_append (data_window d) v) = replicate k' v" by blast
  have "std (update_statistics (d\<lparr>data_window := deque_append (data_window d) v\<rparr>)) = 0"
    using k' assms(2) by (simp add: update_statistics_def np_std_replicate)
  then show ?thesis using k'
    by (simp add: detect_def Let_def)
qed

lemma detect_all_uniform:
  assumes "items (data_window d) = replicate k v" and "std d = 0"
  shows "\<exists>d'. detect_all d (replicate n v) = Inr (replicate n False, d') \<and> std d' = 0"
  using assms
proof (induction n arbitrary: d k)
  case 0
  then show ?case by simp
next
  case (Suc n)
  from detect_uniform[OF Suc.prems] obtain d1 k1 where
    s: "detect d v = Inr (False, d1)" "items (data_window d1) = replicate k1 v" "std d1 = 0"
    by blast
  from Suc.IH[OF s(2,3)] obtain d' where
    "detect_all d1 (replicate n v) = Inr (replicate n False, d')" "std d' = 0" by blast
  then show ?case using s(1) by simp
qed

lemma run_detector_uniform:
  assumes "init ws th = Inr d"
  shows "\<exists>d'. run_detector ws th (replicate n v) = Inr (replicate n False, d') \<and> std d' = 0"
proof -
  have "items (data_window d) = replicate 0 v" "std d = 0"
    using assms by (auto simp: init_def split: option.splits if_splits)
  from detect_all_uniform[OF this, of n] show ?thesis
    by (simp add: run_detector_def assms)
qed

subsection \<open>The scenario 10, 10, 10, 10, 10, 100\<close>

lemma sqrt_1296: "sqrt 1296 = 36"
  using real_sqrt_abs[of 36] by simp

lemma scenario_first_five:
  "run_detector (PyInt 5) 3 [10, 10, 10, 10, 10]
   = Inr ([False, False, False, False, False],
          \<lparr>window_size = PyInt 5, threshold = 3,
           data_window = \<lparr>maxlen = 5, items = [10, 10, 10, 10, 10]\<rparr>, mean = 10, std = 0\<rparr>)"
  by (simp add: run_detector_def init_def PY_SSIZE_T_MAX_def detect_def Let_def deque_append_def
        update_statistics_def np_std_def np_mean_def)

lemma scenario_sixth:
  "detect \<lparr>window_size = PyInt 5, threshold = 3,
           data_window = \<lparr>maxlen = 5, items = [10, 10, 10, 10, 10]\<rparr>, mean = 10, std = 0\<rparr> 100
   = Inr (False, \<lparr>window_size = PyInt 5, threshold = 3,
           data_window = \<lparr>maxlen = 5, items = [10, 10, 10, 10, 100]\<rparr>, mean = 28, std = 36\<rparr>)"
proof -
  have m: "np_mean [10, 10, 10, 10, 100] = 28" by (simp add: np_mean_def)
  have s: "np_std [10, 10, 10, 10, 100] = 36"
    by (simp add: np_std_def m) (simp add: np_mean_def sqrt_1296)
  show ?thesis
    by (simp add: detect_def Let_def deque_append_def update_statistics_def py_div_def m s)
qed

lemma detect_all_append:
  "detect_all d xs = Inr (bs, d') \<Longrightarrow> detect_all d' ys = Inr (cs, d'') \<Longrightarrow>
   detect_all d (xs @ ys) = Inr (bs @ cs, d'')"
  by (induction xs arbitrary: d bs) (auto split: sum.splits prod.splits)

lemma scenario_run:
  "run_detector (PyInt 5) 3 [10, 10, 10, 10, 10, 100]
     = Inr ([False, False, False, False, False, False],
          \<lparr>window_size = PyInt 5, threshold = 3,
           data_window = \<lparr>maxlen = 5, items = [10, 10, 10, 10, 100]\<rparr>, mean = 28, std = 36\<rparr>)"
proof -
  have six: "detect_all d [10, 10, 10, 10, 10, 100] = detect_all d ([10, 10, 10, 10, 10] @ [100])" for d
    by simp
  have i: "init (PyInt 5) 3 = Inr \<lparr>window_size = PyInt 5, threshold = 3,
           data_window = \<lparr>maxlen = 5, items = []\<rparr>, mean = 0, std = 0\<rparr>"
    by (simp add: init_def PY_SSIZE_T_MAX_def)
  have five: "detect_all \<lparr>window_size = PyInt 5, threshold = 3,
           data_window = \<lparr>maxlen = 5, items = []\<rparr>, mean = 0, std = 0\<rparr> [10, 10, 10, 10, 10]
     = Inr ([False, False, False, False, False],
          \<lparr>window_size = PyInt 5, threshold = 3,
           data_window = \<lparr>maxlen = 5, items = [10, 10, 10, 10, 10]\<rparr>, mean = 10, std = 0\<rparr>)"
    using scenario_first_five by (simp add: run_detector_def i del: detect_all.simps)
  have last: "detect_all \<lparr>window_size = PyInt 5, threshold = 3,
           data_window = \<lparr>maxlen = 5, items = [10, 10, 10, 10, 10]\<rparr>, mean = 10, std = 0\<rparr> [100]
     = Inr ([False], \<lparr>window_size = PyInt 5, threshold = 3,
           data_window = \<lparr>maxlen = 5, items = [10, 10, 10, 10, 100]\<rparr>, mean = 28, std = 36\<rparr>)"
    by (simp add: scenario_sixth)
  have "run_detector (PyInt 5) 3 [10, 10, 10, 10, 10, 100]
     = Inr ([False, False, False, False, False] @ [False],
          \<lparr>window_size = PyInt 5, threshold = 3,
           data_window = \<lparr>maxlen = 5, items = [10, 10, 10, 10, 100]\<rparr>, mean = 28, std = 36\<rparr>)"
    unfolding run_detector_def i six
    using detect_all_append[OF five last] by simp
  then show ?thesis by simp
qed

lemma scenario_stats:
  "np_mean [10, 10, 10, 10, 100] = 28 \<and> np_std [10, 10, 10, 10, 100] = 36"
proof -
  have m: "np_mean [10, 10, 10, 10, 100] = 28" by (simp add: np_mean_def)
  have "np_std [10, 10, 10, 10, 100] = 36"
    by (simp add: np_std_def m) (simp add: np_mean_def sqrt_1296)
  then show ?thesis using m by simp
qed

text \<open>
  Claim C2, as stated, fails in its figures: after the sixth call the window is
  \<open>[10, 10, 10, 10, 100]\<close> and its population standard deviation is 36, more than 0.2
  away from 35.78; the z-score of 100 is 2, not 2.01 to two decimal places.
\<close>

theorem scenario_std_counterexample:
  "run_detector (PyInt 5) 3 [10, 10, 10, 10, 10, 100]
     = Inr ([False, False, False, False, False, False],
          \<lparr>window_size = PyInt 5, threshold = 3,
           data_window = \<lparr>maxlen = 5, items = [10, 10, 10, 10, 100]\<rparr>, mean = 28, std = 36\<rparr>)
   \<and> np_std [10, 10, 10, 10, 100] = 36
   \<and> \<not> \<bar>np_std [10, 10, 10, 10, 100] - 3578 / 100\<bar> \<le> 2 / 10
   \<and> py_div (100 - np_mean [10, 10, 10, 10, 100]) (np_std [10, 10, 10, 10, 100]) = Inr 2
   \<and> \<not> \<bar>(2::real) - 201 / 100\<bar> \<le> 5 / 1000"
  using scenario_run scenario_stats by (simp add: py_div_def)

text \<open>
  Claim C2, amended. With window size 5 and threshold 3.0, each of the first five calls
  on the value 10 returns \<open>False\<close> and leaves \<open>std = 0\<close>; the sixth call, on 100, scores
  the value against the window \<open>[10, 10, 10, 10, 100]\<close> that already holds it, with
  population mean 28, population standard deviation exactly 36 and z-score exactly 2,
  and returns \<open>False\<close>.
\<close>

theorem scenario_six_values:
  "(\<forall>k \<le> 5. \<exists>d. run_detector (PyInt 5) 3 (replicate k 10) = Inr (replicate k False, d)
        \<and> std d = 0)
   \<and> run_detector (PyInt 5) 3 [10, 10, 10, 10, 10, 100]
     = Inr ([False, False, False, False, False, False],
          \<lparr>window_size = PyInt 5, threshold = 3,
           data_window = \<lparr>maxlen = 5, items = [10, 10, 10, 10, 100]\<rparr>, mean = 28, std = 36\<rparr>)
   \<and> py_div (100 - np_mean [10, 10, 10, 10, 100]) (np_std [10, 10, 10, 10, 100]) = Inr 2
   \<and> \<not> \<bar>2\<bar> > threshold \<lparr>window_size = PyInt 5, threshold = 3,
           data_window = \<lparr>maxlen = 5, items = [10, 10, 10, 10, 100]\<rparr>, mean = 28, std = 36\<rparr>"
proof -
  have i: "init (PyInt 5) 3 = Inr \<lparr>window_size = PyInt 5, threshold = 3,
           data_window = \<lparr>maxlen = 5, items = []\<rparr>, mean = 0, std = 0\<rparr>"
    by (simp add: init_def PY_SSIZE_T_MAX_def)
  have "\<exists>d. run_detector (PyInt 5) 3 (replicate k 10) = Inr (replicate k False, d) \<and> std d = 0"
    for k
    by (rule run_detector_uniform[OF i])
  then show ?thesis using scenario_run scenario_stats by (simp add: py_div_def)
qed

theorem scenario_six_values_witness:
  "(3::nat) \<le> 5
   \<and> (\<exists>d. run_detector (PyInt 5) 3 [10, 10, 10] = Inr ([False, False, False], d) \<and> std d = 0)"
proof -
  have "\<exists>d. run_detector (PyInt 5) 3 (replicate 3 10) = Inr (replicate 3 False, d) \<and> std d = 0"
    using scenario_six_values by simp
  moreover have "replicate 3 (10::real) = [10, 10, 10]" "replicate 3 False = [False, False, False]"
    by (simp_all add: numeral_3_eq_3)
  ultimately show ?thesis by simp
qed
section \<open>Binary64 rounding\<close>

lemma p2_pos: "0 < p2 e"
  by (simp add: p2_def)

lemma p2_powr: "p2 e = 2 powr real_of_int e"
proof (cases "0 \<le> e")
  case True
  then have "2 powr real_of_int e = 2 powr real (nat e)" by simp
  also have "\<dots> = 2 ^ nat e" by (simp add: powr_realpow)
  finally show ?thesis using True by (simp add: p2_def)
next
  case False
  then have "real_of_int e = - real (nat (- e))" by simp
  then have "(2::real) powr real_of_int e = 2 powr (- real (nat (- e)))"
    by (rule arg_cong)
  also have "\<dots> = 1 / 2 powr real (nat (- e))" by (simp add: powr_minus_divide)
  also have "\<dots> = 1 / 2 ^ nat (- e)" by (simp add: powr_realpow)
  finally show ?thesis using False by (simp add: p2_def)
qed




lemma floor_log2_eq:
  assumes "p2 k \<le> \<bar>x\<bar>" and "\<bar>x\<bar> < p2 (k + 1)"
  shows "\<lfloor>log 2 \<bar>x\<bar>\<rfloor> = k"
proof -
  have pos: "0 < \<bar>x\<bar>" using assms(1) p2_pos[of k] by linarith
  have "2 powr real_of_int k \<le> \<bar>x\<bar> \<and> \<bar>x\<bar> < 2 powr (real_of_int k + 1)"
    using assms unfolding p2_powr by simp
  then show ?thesis using floor_log_eq_powr_iff[OF pos, of 2 k] by simp
qed

lemma fl_at:
  assumes "p2 k \<le> \<bar>x\<bar>" and "\<bar>x\<bar> < p2 (k + 1)"
  shows "fl x = real_of_int (round_half_even (x / p2 (k - 52))) * p2 (k - 52)"
proof -
  have "x \<noteq> 0" using assms(1) p2_pos[of k] by auto
  then show ?thesis using floor_log2_eq[OF assms] by (simp add: fl_def Let_def)
qed

lemma round_half_even_int [simp]: "round_half_even (real_of_int n) = n"
  by (simp add: round_half_even_def Let_def)

lemma round_half_even_numeral [simp]: "round_half_even (numeral n) = numeral n"
  using round_half_even_int[of "numeral n"] by simp

lemma fl_0 [simp]: "fl 0 = 0"
  by (simp add: fl_def)










lemma fl_hundredth: "fl (1 / 100) = 5764607523034235 / 576460752303423488"
  by (subst fl_at[of "-7"]) (simp_all add: p2_def round_half_even_def Let_def)

lemma fl_5: "fl 5 = 5"
  by (subst fl_at[of 2]) (simp_all add: p2_def round_half_even_def Let_def)

lemma fl_500: "fl 500 = 500"
  by (subst fl_at[of 8]) (simp_all add: p2_def round_half_even_def Let_def)

lemma py_round2_5: "py_round2 5 = 5"
  by (simp add: py_round2_def fmul_def fdiv_def fl_500 fl_5)

section \<open>Windows of equal values in binary64\<close>























section \<open>The stream generator\<close>

lemma gen_next_Unstarted_invalid:
  "as_int v = None \<or> (\<exists>n. as_int v = Some n \<and> n \<le> 0) \<Longrightarrow>
   gen_next np_sin gauss rnd (Unstarted v) r =
     Raise (ValueError ''num_points must be a positive integer'') Finished r"
  by (auto simp: gen_next_def)

lemma gen_next_Unstarted_valid:
  "as_int v = Some n \<Longrightarrow> 0 < n \<Longrightarrow>
   gen_next np_sin gauss rnd (Unstarted v) r =
     Yield (fst (loop_body np_sin gauss rnd 0 r)) (Suspended 0 (nat n)) (snd (loop_body np_sin gauss rnd 0 r))"
  by (simp add: gen_next_def iterate_def split: prod.splits)

lemma gen_next_Suspended:
  "gen_next np_sin gauss rnd (Suspended i n) r =
     (if Suc i < n
      then Yield (fst (loop_body np_sin gauss rnd (Suc i) r)) (Suspended (Suc i) n)
                 (snd (loop_body np_sin gauss rnd (Suc i) r))
      else StopIteration Finished r)"
  by (simp add: gen_next_def iterate_def split: prod.splits)


lemma drain_Suspended_length:
  "\<exists>vs. drain np_sin gauss rnd (Suspended i n) r = Inr vs \<and> length vs = n - Suc i"
proof (induction "n - Suc i" arbitrary: i r)
  case 0
  then show ?case
    by (subst drain.simps) (simp add: gen_next_Suspended)
next
  case (Suc k)
  then have lt: "Suc i < n" and k: "k = n - Suc (Suc i)" by auto
  from Suc.hyps(1)[OF k, of "snd (loop_body np_sin gauss rnd (Suc i) r)"]
  obtain vs where "drain np_sin gauss rnd (Suspended (Suc i) n) (snd (loop_body np_sin gauss rnd (Suc i) r)) = Inr vs"
    "length vs = n - Suc (Suc i)" by blast
  then show ?case using lt
    by (subst drain.simps) (simp add: gen_next_Suspended)
qed

lemma drain_Unstarted_valid:
  assumes "as_int v = Some n" and "0 < n"
  shows "\<exists>vs. drain np_sin gauss rnd (Unstarted v) r = Inr vs \<and> length vs = nat n"
proof -
  from drain_Suspended_length[of np_sin gauss rnd 0 "nat n" "snd (loop_body np_sin gauss rnd 0 r)"]
  obtain vs where "drain np_sin gauss rnd (Suspended 0 (nat n)) (snd (loop_body np_sin gauss rnd 0 r)) = Inr vs"
    "length vs = nat n - Suc 0" by blast
  then show ?thesis using assms
    by (subst drain.simps) (simp add: gen_next_Unstarted_valid)
qed

lemma drain_Unstarted_invalid:
  assumes "as_int v = None \<or> (\<exists>n. as_int v = Some n \<and> n \<le> 0)"
  shows "drain np_sin gauss rnd (Unstarted v) r = Inl (ValueError ''num_points must be a positive integer'')"
  by (subst drain.simps) (simp add: gen_next_Unstarted_invalid[OF assms])

text \<open>
  Claim C7, as stated, fails: the call \<open>data_stream_generator(0)\<close>, like the call with
  \<open>-5\<close>, raises nothing and returns a generator object; the check of \<open>num_points\<close> is
  in the body and has not run yet.
\<close>

theorem generator_call_counterexample:
  "data_stream_generator (PyInt 0) = Inr (Unstarted (PyInt 0))
   \<and> data_stream_generator (PyInt (-5)) = Inr (Unstarted (PyInt (-5)))"
  by (simp add: data_stream_generator_def)

text \<open>
  Claim C7, amended. The call returns a generator for every argument. When
  \<open>num_points\<close> is not an int, or is zero or negative, the first request for a value
  raises \<open>ValueError\<close>, so no value is produced before the error; when it is a positive
  int the generator yields exactly \<open>num_points\<close> values and then stops, whatever the
  random draws.
\<close>

theorem generator_validates_on_first_next:
  "data_stream_generator num_points = Inr (Unstarted num_points)
   \<and> ((as_int num_points = None \<or> (\<exists>n. as_int num_points = Some n \<and> n \<le> 0)) \<longrightarrow>
        gen_next np_sin gauss rnd (Unstarted num_points) r =
          Raise (ValueError ''num_points must be a positive integer'') Finished r
        \<and> drain np_sin gauss rnd (Unstarted num_points) r =
          Inl (ValueError ''num_points must be a positive integer''))
   \<and> (\<forall>n. as_int num_points = Some n \<and> 0 < n \<longrightarrow>
        (\<exists>vs. drain np_sin gauss rnd (Unstarted num_points) r = Inr vs \<and> length vs = nat n))"
  using gen_next_Unstarted_invalid[of num_points np_sin gauss rnd r]
    drain_Unstarted_invalid[of num_points np_sin gauss rnd r]
    drain_Unstarted_valid[of num_points _ np_sin gauss rnd r]
  by (simp add: data_stream_generator_def)

theorem generator_validates_on_first_next_witness:
  "drain sin (\<lambda>mu sigma s. (0, s)) (\<lambda>s. (1/2, s)) (Unstarted (PyInt 0)) ()
     = Inl (ValueError ''num_points must be a positive integer'')
   \<and> drain sin (\<lambda>mu sigma s. (0, s)) (\<lambda>s. (1/2, s)) (Unstarted (PyInt (-5))) ()
     = Inl (ValueError ''num_points must be a positive integer'')
   \<and> (\<exists>vs. drain sin (\<lambda>mu sigma s. (0, s)) (\<lambda>s. (1/2, s)) (Unstarted (PyInt 3)) () = Inr vs
         \<and> length vs = 3)"
proof -
  have 1: "drain sin (\<lambda>mu sigma s. (0, s)) (\<lambda>s. (1/2, s)) (Unstarted (PyInt 0)) ()
     = Inl (ValueError ''num_points must be a positive integer'')"
    using generator_validates_on_first_next[of "PyInt 0" sin "\<lambda>mu sigma s. (0, s)" "\<lambda>s. (1/2, s)" "()"]
    by simp
  have 2: "drain sin (\<lambda>mu sigma s. (0, s)) (\<lambda>s. (1/2, s)) (Unstarted (PyInt (-5))) ()
     = Inl (ValueError ''num_points must be a positive integer'')"
    using generator_validates_on_first_next[of "PyInt (-5)" sin "\<lambda>mu sigma s. (0, s)" "\<lambda>s. (1/2, s)" "()"]
    by simp
  have 3: "\<exists>vs. drain sin (\<lambda>mu sigma s. (0, s)) (\<lambda>s. (1/2, s)) (Unstarted (PyInt 3)) () = Inr vs
         \<and> length vs = 3"
    using generator_validates_on_first_next[of "PyInt 3" sin "\<lambda>mu sigma s. (0, s)" "\<lambda>s. (1/2, s)" "()"]
    by simp
  show ?thesis using 1 2 3 by blast
qed
text \<open>The rounding is numpy's: the float 0.015 lies below 0.015, but its product with
  100 is rounded to 1.5, a tie, and \<open>round(0.015, 2)\<close> is the float 0.02.\<close>

lemma fl_0015: "fl (3 / 200) = 1080863910568919 / 72057594037927936"
  by (subst fl_at[of "-7"]) (simp_all add: p2_def round_half_even_def Let_def)

lemma fmul_0015: "fmul (1080863910568919 / 72057594037927936) 100 = 3 / 2"
  unfolding fmul_def by (subst fl_at[of 0]) (simp_all add: p2_def round_half_even_def Let_def)

lemma py_round2_tie: "py_round2 (fl (15 / 1000)) = fl (2 / 100)"
  by (simp add: fl_0015 py_round2_def fmul_0015 fdiv_def) (simp add: round_half_even_def Let_def)






section \<open>The visualization loop\<close>

lemma vis_loop_log:
  assumes "drain np_sin gauss rnd g r = Inr ps" and "detect_all det ps = Inr (bs, det')"
  shows "\<exists>st. vis_loop np_sin gauss rnd fmt det g r i st0 = Inr (st, det')
           \<and> stdout st = stdout st0 @
               spec_console_log (\<lambda>k p. log_text fmt k p @ [CHR 0x0A]) i ps bs
           \<and> vals st = vals st0 @ ps
           \<and> count st = count st0 + length (filter (\<lambda>b. b) bs)"
  using assms
proof (induction np_sin gauss rnd g r arbitrary: ps bs det det' i st0 rule: drain.induct)
  case (1 np_sin gauss rnd g r)
  show ?case
  proof (cases "gen_next np_sin gauss rnd g r")
    case (StopIteration g' r')
    then have "ps = []" using "1.prems"(1) by (subst (asm) drain.simps) simp
    then have "bs = []" "det' = det" using "1.prems"(2) by simp_all
    then show ?thesis using StopIteration \<open>ps = []\<close>
      by (subst vis_loop.simps) simp
  next
    case (Raise e g' r')
    then show ?thesis using "1.prems"(1) by (subst (asm) drain.simps) simp
  next
    case (Yield v g' r')
    then obtain ps' where ps': "drain np_sin gauss rnd g' r' = Inr ps'" and ps: "ps = v # ps'"
      using "1.prems"(1) by (subst (asm) drain.simps) (auto split: sum.splits)
    obtain b det1 bs' where b: "detect det v = Inr (b, det1)"
      and bs': "detect_all det1 ps' = Inr (bs', det')" and bs: "bs = b # bs'"
      using "1.prems"(2) ps by (auto split: sum.splits prod.splits)
    let ?st1 = "if b
                then st0\<lparr>vals := vals st0 @ [v], anomalies := anomalies st0 @ [Some v],
                         count := count st0 + 1,
                         stdout := py_print (stdout st0) (log_text fmt i v)\<rparr>
                else st0\<lparr>vals := vals st0 @ [v], anomalies := anomalies st0 @ [None]\<rparr>"
    from "1.IH"[OF Yield ps' bs', of "Suc i" ?st1]
    obtain st where
      st: "vis_loop np_sin gauss rnd fmt det1 g' r' (Suc i) ?st1 = Inr (st, det')"
          "stdout st = stdout ?st1 @
               spec_console_log (\<lambda>k p. log_text fmt k p @ [CHR 0x0A]) (Suc i) ps' bs'"
          "vals st = vals ?st1 @ ps'"
          "count st = count ?st1 + length (filter (\<lambda>b. b) bs')"
      by blast
    have run: "vis_loop np_sin gauss rnd fmt det g r i st0 = Inr (st, det')"
      using Yield b st(1) by (subst vis_loop.simps) simp
    show ?thesis using run st(2,3,4) ps bs
      by (cases b) (simp_all add: py_print_def)
  qed
qed

lemma loop_body_five:
  "loop_body sin (\<lambda>mu sigma s. (5, s)) (\<lambda>s. (1/2, s)) 0 () = (5, ())"
  by (simp add: loop_body_def Let_def py_float_def fmul_def fadd_def fl_hundredth fl_5 py_round2_5)

text \<open>A run that logs: the detector has seen the value 1, window size 2 and
  threshold 0.5; the one sample generated is 5.0, which \<open>fmt\<close> renders as \<open>5.0\<close>.\<close>

lemma vis_example:
  "real_time_visualization sin (\<lambda>mu sigma s. (5, s)) (\<lambda>s. (1/2, s)) (\<lambda>x. ''5.0'')
     \<lparr>window_size = PyInt 2, threshold = 1/2,
      data_window = \<lparr>maxlen = 2, items = [1]\<rparr>, mean = 0, std = 0\<rparr> (PyInt 1) ()
   = Inr (\<lparr>vals = [5], anomalies = [Some 5], count = 1,
           stdout = ''--> Anomaly detected at X-axis 0 & Y-axis 5.0'' @ [CHR 0x0A, CHR 0x0A]\<rparr>,
          \<lparr>window_size = PyInt 2, threshold = 1/2,
           data_window = \<lparr>maxlen = 2, items = [1, 5]\<rparr>, mean = 3, std = 2\<rparr>)"
proof -
  have lb: "loop_body sin (\<lambda>mu sigma s. (5, s)) (\<lambda>s. (1/2, s)) 0 () = (5, ())"
    by (rule loop_body_five)
  have n1: "gen_next sin (\<lambda>mu sigma s. (5, s)) (\<lambda>s. (1/2, s)) (Unstarted (PyInt 1)) ()
        = Yield 5 (Suspended 0 1) ()"
    by (simp add: gen_next_Unstarted_valid[of _ 1] lb)
  have m: "np_mean [1, 5] = 3" by (simp add: np_mean_def)
  have s: "np_std [1, 5] = 2" by (simp add: np_std_def m) (simp add: np_mean_def)
  have d: "detect \<lparr>window_size = PyInt 2, threshold = 1/2,
      data_window = \<lparr>maxlen = 2, items = [1]\<rparr>, mean = 0, std = 0\<rparr> 5
     = Inr (True, \<lparr>window_size = PyInt 2, threshold = 1/2,
           data_window = \<lparr>maxlen = 2, items = [1, 5]\<rparr>, mean = 3, std = 2\<rparr>)"
    by (simp add: detect_def Let_def deque_append_def update_statistics_def py_div_def m s)
  have stop: "vis_loop np_sin gauss rnd fmt det (Suspended 0 (Suc 0)) r i st = Inr (st, det)"
    for np_sin and gauss :: "real \<Rightarrow> real \<Rightarrow> unit \<Rightarrow> real \<times> unit" and rnd fmt det r i st
    by (subst vis_loop.simps) (simp add: gen_next_Suspended)
  have "vis_loop sin (\<lambda>mu sigma s. (5, s)) (\<lambda>s. (1/2, s)) (\<lambda>x. ''5.0'')
     \<lparr>window_size = PyInt 2, threshold = 1/2,
      data_window = \<lparr>maxlen = 2, items = [1]\<rparr>, mean = 0, std = 0\<rparr> (Unstarted (PyInt 1)) () 0
     \<lparr>vals = [], anomalies = [], count = 0, stdout = []\<rparr>
   = Inr (\<lparr>vals = [5], anomalies = [Some 5], count = 1,
           stdout = ''--> Anomaly detected at X-axis 0 & Y-axis 5.0'' @ [CHR 0x0A, CHR 0x0A]\<rparr>,
          \<lparr>window_size = PyInt 2, threshold = 1/2,
           data_window = \<lparr>maxlen = 2, items = [1, 5]\<rparr>, mean = 3, std = 2\<rparr>)"
    by (subst vis_loop.simps) (simp add: n1 d stop py_print_def log_text_def digit_def del: vis_loop.simps)
  then show ?thesis
    by (simp add: real_time_visualization_def data_stream_generator_def)
qed

text \<open>
  Claim C9, as stated, fails in the form of the line: for the anomaly at index 0 with
  value 5.0 the loop writes \<open>--> Anomaly detected at X-axis 0 & Y-axis 5.0\<close> and two
  newlines, not the line \<open>Anomaly detected at X-axis 0 & Y-axis 5.0\<close>.
\<close>

theorem log_line_form_counterexample:
  "real_time_visualization sin (\<lambda>mu sigma s. (5, s)) (\<lambda>s. (1/2, s)) (\<lambda>x. ''5.0'')
     \<lparr>window_size = PyInt 2, threshold = 1/2,
      data_window = \<lparr>maxlen = 2, items = [1]\<rparr>, mean = 0, std = 0\<rparr> (PyInt 1) ()
   = Inr (\<lparr>vals = [5], anomalies = [Some 5], count = 1,
           stdout = ''--> Anomaly detected at X-axis 0 & Y-axis 5.0'' @ [CHR 0x0A, CHR 0x0A]\<rparr>,
          \<lparr>window_size = PyInt 2, threshold = 1/2,
           data_window = \<lparr>maxlen = 2, items = [1, 5]\<rparr>, mean = 3, std = 2\<rparr>)
   \<and> ''--> Anomaly detected at X-axis 0 & Y-axis 5.0'' @ [CHR 0x0A, CHR 0x0A]
       \<noteq> ''Anomaly detected at X-axis 0 & Y-axis 5.0'' @ [CHR 0x0A]"
  using vis_example by simp

text \<open>
  Claim C9, amended. When the generator yields the samples \<open>ps\<close> and the detector
  classifies them as \<open>bs\<close>, the loop writes to the console, for each anomalous sample
  and in order of detection, the text
  \<open>--> Anomaly detected at X-axis {index} & Y-axis {value}\<close> followed by an empty line,
  with the 0-based position and the rounded value of the sample, and writes nothing
  for the other samples; \<open>count\<close> ends as the number of anomalies.
\<close>

theorem one_log_text_per_anomaly:
  assumes "drain np_sin gauss rnd (Unstarted num_points) r = Inr ps"
    and "detect_all det ps = Inr (bs, det')"
  shows "\<exists>st. real_time_visualization np_sin gauss rnd fmt det num_points r = Inr (st, det')
           \<and> stdout st =
               spec_console_log
                 (\<lambda>i p. ''--> Anomaly detected at X-axis '' @ str_nat i @ '' & Y-axis '' @ fmt p
                        @ [CHR 0x0A, CHR 0x0A]) 0 ps bs
           \<and> vals st = ps \<and> count st = length (filter (\<lambda>b. b) bs)"
proof -
  have line: "(\<lambda>k p. log_text fmt k p @ [CHR 0x0A]) =
      (\<lambda>i p. ''--> Anomaly detected at X-axis '' @ str_nat i @ '' & Y-axis '' @ fmt p
                        @ [CHR 0x0A, CHR 0x0A])"
    by (simp add: log_text_def)
  from vis_loop_log[OF assms, of fmt 0 "\<lparr>vals = [], anomalies = [], count = 0, stdout = []\<rparr>"]
  show ?thesis
    unfolding line by (simp add: real_time_visualization_def data_stream_generator_def)
qed

theorem one_log_text_per_anomaly_witness:
  "drain sin (\<lambda>mu sigma s. (5, s)) (\<lambda>s. (1/2, s)) (Unstarted (PyInt 1)) () = Inr [5]
   \<and> detect_all \<lparr>window_size = PyInt 2, threshold = 1/2,
        data_window = \<lparr>maxlen = 2, items = [1]\<rparr>, mean = 0, std = 0\<rparr> [5]
      = Inr ([True], \<lparr>window_size = PyInt 2, threshold = 1/2,
           data_window = \<lparr>maxlen = 2, items = [1, 5]\<rparr>, mean = 3, std = 2\<rparr>)
   \<and> (\<exists>st. real_time_visualization sin (\<lambda>mu sigma s. (5, s)) (\<lambda>s. (1/2, s)) (\<lambda>x. ''5.0'')
          \<lparr>window_size = PyInt 2, threshold = 1/2,
           data_window = \<lparr>maxlen = 2, items = [1]\<rparr>, mean = 0, std = 0\<rparr> (PyInt 1) ()
        = Inr (st, \<lparr>window_size = PyInt 2, threshold = 1/2,
           data_window = \<lparr>maxlen = 2, items = [1, 5]\<rparr>, mean = 3, std = 2\<rparr>)
        \<and> stdout st = ''--> Anomaly detected at X-axis 0 & Y-axis 5.0'' @ [CHR 0x0A, CHR 0x0A]
        \<and> vals st = [5] \<and> count st = 1)"
proof -
  have lb: "loop_body sin (\<lambda>mu sigma s. (5, s)) (\<lambda>s. (1/2, s)) 0 () = (5, ())"
    by (rule loop_body_five)
  have stop: "drain np_sin gauss rnd (Suspended 0 (Suc 0)) r = Inr []"
    for np_sin and gauss :: "real \<Rightarrow> real \<Rightarrow> unit \<Rightarrow> real \<times> unit" and rnd r
    by (subst drain.simps) (simp add: gen_next_Suspended)
  have dr: "drain sin (\<lambda>mu sigma s. (5, s)) (\<lambda>s. (1/2, s)) (Unstarted (PyInt 1)) () = Inr [5]"
    by (subst drain.simps)
       (simp add: gen_next_Unstarted_valid[of _ 1] lb stop del: drain.simps)
  have m: "np_mean [1, 5] = 3" by (simp add: np_mean_def)
  have s: "np_std [1, 5] = 2" by (simp add: np_std_def m) (simp add: np_mean_def)
  have da: "detect_all \<lparr>window_size = PyInt 2, threshold = 1/2,
        data_window = \<lparr>maxlen = 2, items = [1]\<rparr>, mean = 0, std = 0\<rparr> [5]
      = Inr ([True], \<lparr>window_size = PyInt 2, threshold = 1/2,
           data_window = \<lparr>maxlen = 2, items = [1, 5]\<rparr>, mean = 3, std = 2\<rparr>)"
    by (simp add: detect_def Let_def deque_append_def update_statistics_def py_div_def m s)
  from one_log_text_per_anomaly[OF dr da, of "\<lambda>x. ''5.0''"]
  show ?thesis using dr da by (simp add: digit_def del: detect_all.simps)
qed

end
